theory Spec2Isabelle
  imports Complex_Main
begin

section \<open>Values shared by the routes\<close>

text \<open>
  The server is one Express application (\<^verbatim>\<open>src/unnamed/part_000\<close>) over three Mongoose
  collections and one upload directory. Strings are byte strings. A JavaScript value
  that may be \<^verbatim>\<open>undefined\<close> (a body or query field that was not sent) is an option.
\<close>

type_synonym oid = "nat list"

datatype number = Finite rat | PosInfinity | NegInfinity

datatype error =
    CastError
  | ValidationError
  | StoreError
  | TypeError
  | JwtError
  | BcryptError
  | ReferenceError

text \<open>\<^verbatim>\<open>!v\<close> for a value that is a string or \<^verbatim>\<open>undefined\<close>.\<close>

definition falsy :: "string option \<Rightarrow> bool" where
  "falsy v = (case v of None \<Rightarrow> True | Some s \<Rightarrow> s = [])"

subsection \<open>Numbers to text and text to numbers\<close>

definition digit_char :: "nat \<Rightarrow> char" where
  "digit_char d = char_of (48 + d)"

text \<open>\<^verbatim>\<open>Date.now() + '-'\<close>: the decimal text of a non-negative integer.\<close>

fun decimal :: "nat \<Rightarrow> string" where
  "decimal n = (if n < 10 then [digit_char n] else decimal (n div 10) @ [digit_char (n mod 10)])"

declare decimal.simps [simp del]

definition is_digit :: "char \<Rightarrow> bool" where
  "is_digit c = (48 \<le> (of_char c :: nat) \<and> (of_char c :: nat) \<le> 57)"

definition digits_value :: "string \<Rightarrow> nat" where
  "digits_value s = foldl (\<lambda>a c. 10 * a + ((of_char c :: nat) - 48)) 0 s"

definition short_digits :: "string \<Rightarrow> bool" where
  "short_digits s = (s \<noteq> [] \<and> length s \<le> 15 \<and> list_all is_digit s)"

text \<open>
  \<^verbatim>\<open>Number(s)\<close> on the texts whose value is known exactly here: an optional sign and at
  most fifteen decimal digits (every such integer is a double). On every other text
  (fractions, exponents, blanks, \<^verbatim>\<open>Infinity\<close>, hexadecimal) the value is the parameter
  \<open>other\<close>, \<open>None\<close> standing for \<^verbatim>\<open>NaN\<close>.
\<close>

definition signed_decimal :: "string \<Rightarrow> int option" where
  "signed_decimal s =
     (case s of
        [] \<Rightarrow> None
      | c # ds \<Rightarrow>
          if c = CHR ''-'' then (if short_digits ds then Some (- int (digits_value ds)) else None)
          else if c = CHR ''+'' then (if short_digits ds then Some (int (digits_value ds)) else None)
          else if short_digits s then Some (int (digits_value s)) else None)"

definition Number :: "(string \<Rightarrow> number option) \<Rightarrow> string \<Rightarrow> number option" where
  "Number other s =
     (case signed_decimal s of Some i \<Rightarrow> Some (Finite (of_int i)) | None \<Rightarrow> other s)"

subsection \<open>Object identifiers\<close>

definition hex_value :: "char \<Rightarrow> nat option" where
  "hex_value c =
     (let n = (of_char c :: nat) in
      if 48 \<le> n \<and> n \<le> 57 then Some (n - 48)
      else if 97 \<le> n \<and> n \<le> 102 then Some (n - 87)
      else if 65 \<le> n \<and> n \<le> 70 then Some (n - 55)
      else None)"

fun hex_bytes :: "string \<Rightarrow> nat list option" where
  "hex_bytes [] = Some []"
| "hex_bytes [c] = None"
| "hex_bytes (a # b # cs) =
     (case (hex_value a, hex_value b, hex_bytes cs) of
        (Some h, Some l, Some bs) \<Rightarrow> Some ((16 * h + l) # bs)
      | _ \<Rightarrow> None)"

text \<open>
  Mongoose casts the text of \<^verbatim>\<open>:id\<close> to an ObjectId: twenty-four hexadecimal digits, or
  any twelve bytes taken as they are. Every other text is a cast error.
\<close>

definition castObjectId :: "string \<Rightarrow> oid option" where
  "castObjectId s =
     (if length s = 24 then hex_bytes s
      else if length s = 12 then Some (map of_char s)
      else None)"

section \<open>Courses\<close>

text \<open>
  \<^verbatim>\<open>courseSchema\<close> (lines 35 to 41), the schema of the model the routes use: five
  required paths, \<^verbatim>\<open>price\<close> a Number with no \<^verbatim>\<open>min\<close> validator. The model of
  \<^verbatim>\<open>src/models/Course.js\<close> is not loaded by the server; its \<^verbatim>\<open>price\<close> is a Number without
  any validator as well.
\<close>

record course =
  c_id :: oid
  courseName :: string
  description :: string
  price :: number
  videoPreview :: string
  fullVideo :: string


section \<open>Bearer tokens\<close>

text \<open>
  \<^verbatim>\<open>jwt.sign(payload, secret, { expiresIn })\<close>. The compact text of a token is not
  computed: a token is its payload, the two registered claims \<^verbatim>\<open>iat\<close> and \<^verbatim>\<open>exp\<close> (in
  seconds) and the key its signature was made with.
\<close>

datatype claim = IdClaim oid | TextClaim string

record jwt =
  payload :: "(string \<times> claim) list"
  iat :: nat
  exp :: nat
  signed_with :: string

text \<open>The time spans \<^verbatim>\<open>expiresIn\<close> is read as, in seconds: decimal digits and one unit
  letter. Other texts are refused.\<close>

definition unit_seconds :: "char \<Rightarrow> nat option" where
  "unit_seconds u =
     (if u = CHR ''s'' then Some 1
      else if u = CHR ''m'' then Some 60
      else if u = CHR ''h'' then Some (60 * 60)
      else if u = CHR ''d'' then Some (24 * 60 * 60)
      else None)"

definition timespan :: "string \<Rightarrow> nat option" where
  "timespan s =
     (case rev s of
        [] \<Rightarrow> None
      | u # ds \<Rightarrow>
          if ds \<noteq> [] \<and> list_all is_digit ds
          then map_option (\<lambda>k. digits_value (rev ds) * k) (unit_seconds u)
          else None)"

text \<open>\<^verbatim>\<open>sign\<close> throws on an empty secret and on a span it cannot read; \<open>now\<close> is
  \<^verbatim>\<open>Date.now()\<close> in milliseconds.\<close>

definition jwt_sign :: "(string \<times> claim) list \<Rightarrow> string \<Rightarrow> string \<Rightarrow> nat \<Rightarrow> error + jwt" where
  "jwt_sign pl secret expiresIn now =
     (if secret = [] then Inl JwtError
      else case timespan expiresIn of
        None \<Rightarrow> Inl JwtError
      | Some secs \<Rightarrow>
          Inr \<lparr>payload = pl, iat = now div 1000, exp = now div 1000 + secs,
               signed_with = secret\<rparr>)"

section \<open>Stored data and responses\<close>

datatype jsval = Undefined | JStr string | JTok jwt

definition truthy :: "jsval \<Rightarrow> bool" where
  "truthy v = (case v of Undefined \<Rightarrow> False | JStr s \<Rightarrow> s \<noteq> [] | JTok t \<Rightarrow> True)"

text \<open>\<^verbatim>\<open>userSchema\<close> (lines 127 to 136).\<close>

record user =
  u_id :: oid
  u_username :: string
  u_email :: string
  u_password :: string

text \<open>
  A document of the Admin collection, as stored: its identifier and its keys
  (\<^verbatim>\<open>username\<close>, \<^verbatim>\<open>password\<close>, and whatever else it was written with).
\<close>

record admin_doc =
  a_id :: oid
  a_keys :: "(string \<times> jsval) list"

record state =
  courses :: "course list"
  users :: "user list"
  admins :: "admin_doc list"
  uploads :: "string \<rightharpoonup> nat"
  online :: bool

text \<open>
  What a response carries. \<open>ErrorPage\<close> is the page of Express's default error handler,
  which answers an error no middleware of the application handles; the file installs no
  error-handling middleware.
\<close>

datatype body =
    Message string
  | TokenBody jsval
  | Created string course
  | OneCourse course
  | CourseList "course list"
  | ErrorPage

record response =
  status :: nat
  body :: body

text \<open>An \<^verbatim>\<open>async\<close> handler either writes a response or throws outside its \<^verbatim>\<open>try\<close>, and
  then writes none.\<close>

datatype outcome = Responded response | Thrown error

text \<open>
  What depends on the version of the libraries: whether schema setters (\<^verbatim>\<open>lowercase\<close>)
  run on the values of a query filter, and \<^verbatim>\<open>Number\<close> outside the signed decimal
  integers.
\<close>

record env =
  runSettersOnQuery :: bool
  number_other :: "string \<Rightarrow> number option"

section \<open>Reading courses\<close>

text \<open>\<^verbatim>\<open>Course.find()\<close>, lines 101 to 109.\<close>

definition get_courses :: "state \<Rightarrow> response" where
  "get_courses st =
     (if online st then \<lparr>status = 200, body = CourseList (courses st)\<rparr>
      else \<lparr>status = 500, body = Message ''Server error''\<rparr>)"

text \<open>\<^verbatim>\<open>Course.findById(id)\<close>: the identifier is cast first, then the store is asked.\<close>

definition findById :: "state \<Rightarrow> string \<Rightarrow> error + course option" where
  "findById st i =
     (case castObjectId i of
        None \<Rightarrow> Inl CastError
      | Some k \<Rightarrow>
          if online st then Inr (find (\<lambda>c. c_id c = k) (courses st))
          else Inl StoreError)"

text \<open>\<^verbatim>\<open>GET /courses/:id\<close>, lines 112 to 124.\<close>

definition get_course :: "state \<Rightarrow> string \<Rightarrow> response" where
  "get_course st i =
     (case findById st i of
        Inl e \<Rightarrow> \<lparr>status = 500, body = Message ''Server error''\<rparr>
      | Inr None \<Rightarrow> \<lparr>status = 404, body = Message ''Course not found''\<rparr>
      | Inr (Some c) \<Rightarrow> \<lparr>status = 200, body = OneCourse c\<rparr>)"


section \<open>Uploading\<close>

text \<open>A file part of a multipart body as the upload middleware sees it: the name of its
  form field, the file name the client gave, the media type the client declared, and the
  number of bytes of its content.\<close>

record file_part =
  fieldname :: string
  originalname :: string
  mimetype :: string
  bytes :: nat

record stored_file =
  part :: file_part
  filename :: string
  stored_bytes :: nat

datatype upload_error =
    InvalidFileType
  | LIMIT_UNEXPECTED_FILE string
  | LIMIT_FILE_SIZE string

text \<open>\<^verbatim>\<open>filename\<close> of \<^verbatim>\<open>multer.diskStorage\<close>, lines 50 to 52; \<open>t\<close> is what \<^verbatim>\<open>Date.now()\<close>
  returns there.\<close>

definition storage_filename :: "nat \<Rightarrow> file_part \<Rightarrow> string" where
  "storage_filename t p = decimal t @ ''-'' @ originalname p"

definition allowedTypes :: "string list" where
  "allowedTypes = [''video/mp4'', ''video/mpeg'']"

text \<open>\<^verbatim>\<open>fileFilter\<close>, lines 55 to 62.\<close>

definition fileFilter :: "file_part \<Rightarrow> upload_error + bool" where
  "fileFilter p = (if mimetype p \<in> set allowedTypes then Inr True else Inl InvalidFileType)"

definition fileSize :: nat where
  "fileSize = 100 * 1024 * 1024"

text \<open>\<^verbatim>\<open>upload.fields\<close>, lines 71 to 74: how many files each field may still take.\<close>

definition maxCounts :: "string \<Rightarrow> nat" where
  "maxCounts n = (if n = ''videoPreview'' then 1 else if n = ''fullVideo'' then 1 else 0)"

text \<open>On an error the middleware removes from the directory every file the request has
  written so far.\<close>

definition removeUploadedFiles :: "stored_file list \<Rightarrow> (string \<rightharpoonup> nat) \<Rightarrow> (string \<rightharpoonup> nat)" where
  "removeUploadedFiles fs d = fold (\<lambda>f m. m(filename f := None)) fs d"

text \<open>
  The parts of one request, in their order; \<open>k\<close> is the position of the first of them in
  the request and \<open>now k\<close> what \<^verbatim>\<open>Date.now()\<close> returns when part \<open>k\<close> is given its storage
  name. A part with no file name is skipped. A part for a field that takes no more files
  is an error, then the filter decides, then the content is written under the storage
  name; a content over the limit is cut there, and that is an error. The first error ends
  the upload.
\<close>

fun upload_parts ::
  "(nat \<Rightarrow> nat) \<Rightarrow> nat \<Rightarrow> file_part list \<Rightarrow> (string \<Rightarrow> nat) \<Rightarrow> stored_file list
     \<Rightarrow> (string \<rightharpoonup> nat) \<Rightarrow> (upload_error + stored_file list) \<times> (string \<rightharpoonup> nat)" where
  "upload_parts now k [] left acc d = (Inr acc, d)"
| "upload_parts now k (p # ps) left acc d =
     (if originalname p = [] then upload_parts now (Suc k) ps left acc d
      else if left (fieldname p) = 0
        then (Inl (LIMIT_UNEXPECTED_FILE (fieldname p)), removeUploadedFiles acc d)
      else case fileFilter p of
        Inl e \<Rightarrow> (Inl e, removeUploadedFiles acc d)
      | Inr ok \<Rightarrow>
          if fileSize < bytes p
          then (Inl (LIMIT_FILE_SIZE (fieldname p)),
                removeUploadedFiles
                  (acc @ [\<lparr>part = p, filename = storage_filename (now k) p,
                           stored_bytes = fileSize\<rparr>])
                  (d(storage_filename (now k) p \<mapsto> fileSize)))
          else upload_parts now (Suc k) ps
                 (left(fieldname p := left (fieldname p) - 1))
                 (acc @ [\<lparr>part = p, filename = storage_filename (now k) p,
                          stored_bytes = bytes p\<rparr>])
                 (d(storage_filename (now k) p \<mapsto> bytes p)))"

definition upload :: "(nat \<Rightarrow> nat) \<Rightarrow> file_part list \<Rightarrow> (string \<rightharpoonup> nat)
     \<Rightarrow> (upload_error + stored_file list) \<times> (string \<rightharpoonup> nat)" where
  "upload now ps d = upload_parts now 0 ps maxCounts [] d"

section \<open>Publishing a course\<close>

text \<open>
  A request to \<^verbatim>\<open>POST /courses\<close>: whether its body is multipart, its protocol and Host
  header, the three text fields as the middleware puts them into \<^verbatim>\<open>req.body\<close> (each sent
  at most once and within the middleware's default limits for text fields), and its file
  parts in their order.
\<close>

record request =
  multipart :: bool
  protocol :: string
  host :: "string option"
  body_courseName :: "string option"
  body_description :: "string option"
  body_price :: "string option"
  parts :: "file_part list"

text \<open>\<^verbatim>\<open>req.files[name] ? req.files[name][0] : null\<close>.\<close>

definition first_file :: "string \<Rightarrow> stored_file list \<Rightarrow> stored_file option" where
  "first_file n fs = find (\<lambda>f. fieldname (part f) = n) fs"

text \<open>The template of lines 88 and 89; a request without a Host header gives the text
  of \<^verbatim>\<open>undefined\<close>.\<close>

definition media_url :: "request \<Rightarrow> string \<Rightarrow> string" where
  "media_url req name =
     protocol req @ ''://'' @ (case host req of None \<Rightarrow> ''undefined'' | Some h \<Rightarrow> h)
       @ ''/uploads/'' @ name"

text \<open>\<^verbatim>\<open>new Course({...})\<close> and \<^verbatim>\<open>save()\<close>: the price text is cast to a Number, which
  fails validation when it is \<^verbatim>\<open>NaN\<close>; then the document is inserted. \<open>fresh\<close> is the
  identifier the new document is given.\<close>

definition save_course ::
  "env \<Rightarrow> state \<Rightarrow> oid \<Rightarrow> string \<Rightarrow> string \<Rightarrow> string \<Rightarrow> string \<Rightarrow> string \<Rightarrow> error + course" where
  "save_course e st fresh cn ds pr vp fv =
     (case Number (number_other e) pr of
        None \<Rightarrow> Inl ValidationError
      | Some n \<Rightarrow>
          if online st
          then Inr \<lparr>c_id = fresh, courseName = cn, description = ds, price = n,
                    videoPreview = vp, fullVideo = fv\<rparr>
          else Inl StoreError)"

text \<open>
  \<^verbatim>\<open>POST /courses\<close>, lines 71 to 98. The upload middleware runs first and passes a request
  that is not multipart on untouched, so that \<^verbatim>\<open>req.files\<close> is undefined and line 76
  throws. An upload error goes to the default error handler, and the route handler is
  not run. The test of line 79 fails for a field that is absent or an empty text and for
  a file that is absent; where it passes, all five are there.
\<close>

definition post_courses :: "env \<Rightarrow> (nat \<Rightarrow> nat) \<Rightarrow> oid \<Rightarrow> state \<Rightarrow> request \<Rightarrow> outcome \<times> state" where
  "post_courses e now fresh st req =
     (if \<not> multipart req then (Thrown TypeError, st)
      else case upload now (parts req) (uploads st) of
        (Inl err, d) \<Rightarrow> (Responded \<lparr>status = 500, body = ErrorPage\<rparr>, st\<lparr>uploads := d\<rparr>)
      | (Inr files, d) \<Rightarrow>
          (case (body_courseName req, body_description req, body_price req,
                 first_file ''videoPreview'' files, first_file ''fullVideo'' files) of
             (Some cn, Some ds, Some pr, Some vp, Some fv) \<Rightarrow>
               if cn = [] \<or> ds = [] \<or> pr = []
               then (Responded \<lparr>status = 400, body = Message ''All fields are required.''\<rparr>,
                     st\<lparr>uploads := d\<rparr>)
               else (case save_course e st fresh cn ds pr
                            (media_url req (filename vp)) (media_url req (filename fv)) of
                       Inl err \<Rightarrow>
                         (Responded \<lparr>status = 500, body = Message ''Server error''\<rparr>,
                          st\<lparr>uploads := d\<rparr>)
                     | Inr c \<Rightarrow>
                         (Responded \<lparr>status = 201, body = Created ''Upload successful!'' c\<rparr>,
                          st\<lparr>uploads := d, courses := courses st @ [c]\<rparr>))
           | _ \<Rightarrow>
               (Responded \<lparr>status = 400, body = Message ''All fields are required.''\<rparr>,
                st\<lparr>uploads := d\<rparr>)))"


section \<open>User login\<close>

definition toLowerCase :: "string \<Rightarrow> string" where
  "toLowerCase s =
     map (\<lambda>c. if 65 \<le> (of_char c :: nat) \<and> (of_char c :: nat) \<le> 90
              then char_of ((of_char c :: nat) + 32) else c) s"

text \<open>
  \<^verbatim>\<open>User.findOne({ email, password })\<close>. The fields of the body are strings or absent
  (a JSON object in their place, read by the store as a query operator, is outside this
  model); a stored field is a string and equals no \<^verbatim>\<open>undefined\<close>.
\<close>

definition query_email :: "env \<Rightarrow> string \<Rightarrow> string" where
  "query_email e a = (if runSettersOnQuery e then toLowerCase a else a)"

definition findOne_user :: "env \<Rightarrow> state \<Rightarrow> string option \<Rightarrow> string option \<Rightarrow> error + user option" where
  "findOne_user e st em pw =
     (if online st
      then Inr (find (\<lambda>u. Some (u_email u) = map_option (query_email e) em
                           \<and> Some (u_password u) = pw)
                  (users st))
      else Inl StoreError)"

text \<open>\<^verbatim>\<open>POST /auth/login\<close>, lines 154 to 169; \<open>now\<close> is \<^verbatim>\<open>Date.now()\<close> at line 164.\<close>

definition auth_login :: "env \<Rightarrow> nat \<Rightarrow> state \<Rightarrow> string option \<Rightarrow> string option \<Rightarrow> response" where
  "auth_login e now st em pw =
     (case findOne_user e st em pw of
        Inl err \<Rightarrow> \<lparr>status = 500, body = Message ''Server error''\<rparr>
      | Inr None \<Rightarrow> \<lparr>status = 400, body = Message ''Invalid email or password''\<rparr>
      | Inr (Some u) \<Rightarrow>
          (case jwt_sign [(''id'', IdClaim (u_id u))] ''yourSecretKey'' ''1h'' now of
             Inl err \<Rightarrow> \<lparr>status = 500, body = Message ''Server error''\<rparr>
           | Inr t \<Rightarrow> \<lparr>status = 200, body = TokenBody (JTok t)\<rparr>))"

section \<open>Admin login\<close>

text \<open>
  The admin routes read three names that the repository binds nowhere, in neither of its
  files: \<^verbatim>\<open>Admin\<close>, \<^verbatim>\<open>bcrypt\<close> and \<^verbatim>\<open>jwtSecret\<close> (\<^verbatim>\<open>adminSchema\<close> is declared at line 174, but
  no model is compiled from it, and nothing is required under these names). Evaluating a
  name that is not bound throws a \<^verbatim>\<open>ReferenceError\<close>. The scope of the module gives each of
  the three names what it is bound to, if anything, at the type the routes use it at: a
  model is what \<^verbatim>\<open>findOne\<close> and a document's \<^verbatim>\<open>save\<close> do on the store (the hook of lines
  188 to 193 is part of that \<^verbatim>\<open>save\<close>), \<^verbatim>\<open>bcrypt\<close> is its \<^verbatim>\<open>compare\<close>. The module binds
  none of the three, so nothing below depends on what a model or \<^verbatim>\<open>compare\<close> would do.
\<close>

definition lookup :: "string \<Rightarrow> (string \<times> jsval) list \<Rightarrow> jsval" where
  "lookup k kvs = (case map_of kvs k of None \<Rightarrow> Undefined | Some v \<Rightarrow> v)"

definition put :: "string \<Rightarrow> jsval \<Rightarrow> (string \<times> jsval) list \<Rightarrow> (string \<times> jsval) list" where
  "put k v kvs = (k, v) # filter (\<lambda>kv. fst kv \<noteq> k) kvs"

text \<open>A document as a handler holds it: its identifier and the properties of the
  object.\<close>

record admin_document =
  doc_id :: oid
  properties :: "(string \<times> jsval) list"

record admin_model =
  findOne :: "state \<Rightarrow> jsval \<Rightarrow> error + admin_document option"
  save :: "state \<Rightarrow> admin_document \<Rightarrow> error + state"

record scope =
  Admin :: "admin_model option"
  bcrypt :: "(string \<Rightarrow> string \<Rightarrow> bool) option"
  jwtSecret :: "string option"

definition module_scope :: scope where
  "module_scope = \<lparr>Admin = None, bcrypt = None, jwtSecret = None\<rparr>"

definition resolve :: "'a option \<Rightarrow> error + 'a" where
  "resolve b = (case b of None \<Rightarrow> Inl ReferenceError | Some v \<Rightarrow> Inr v)"

definition get_property :: "admin_document \<Rightarrow> string \<Rightarrow> jsval" where
  "get_property obj p = lookup p (properties obj)"

definition set_property :: "admin_document \<Rightarrow> string \<Rightarrow> jsval \<Rightarrow> admin_document" where
  "set_property obj p v = obj\<lparr>properties := put p v (properties obj)\<rparr>"

text \<open>The filter \<^verbatim>\<open>{ username }\<close> of lines 202 and 247.\<close>

definition username_filter :: "string option \<Rightarrow> jsval" where
  "username_filter un = (case un of None \<Rightarrow> Undefined | Some u \<Rightarrow> JStr u)"

text \<open>\<^verbatim>\<open>comparePassword\<close>, lines 195 to 197; \<^verbatim>\<open>bcrypt.compare\<close> throws unless both
  arguments are strings.\<close>

definition comparePassword :: "admin_document \<Rightarrow> string option \<Rightarrow> error + bool" where
  "comparePassword obj pw =
     (case resolve (bcrypt module_scope) of
        Inl err \<Rightarrow> Inl err
      | Inr compare \<Rightarrow>
          (case (pw, get_property obj ''password'') of
             (Some p, JStr h) \<Rightarrow> Inr (compare p h)
           | _ \<Rightarrow> Inl BcryptError))"

text \<open>
  \<^verbatim>\<open>POST /admin/login\<close>, lines 198 to 226; \<open>now\<close> is \<^verbatim>\<open>Date.now()\<close> at line 216. Every
  statement is inside the \<^verbatim>\<open>try\<close>, and whatever is thrown there is answered by the
  \<^verbatim>\<open>catch\<close> of lines 222 to 225. The first statement, line 202, evaluates \<^verbatim>\<open>Admin\<close>.
\<close>

definition admin_login :: "nat \<Rightarrow> state \<Rightarrow> string option \<Rightarrow> string option \<Rightarrow> response \<times> state" where
  "admin_login now st un pw =
     (case resolve (Admin module_scope) of
        Inl err \<Rightarrow> (\<lparr>status = 500, body = Message ''Server error''\<rparr>, st)
      | Inr model \<Rightarrow>
     (case findOne model st (username_filter un) of
        Inl err \<Rightarrow> (\<lparr>status = 500, body = Message ''Server error''\<rparr>, st)
      | Inr None \<Rightarrow> (\<lparr>status = 400, body = Message ''Invalid credentials''\<rparr>, st)
      | Inr (Some admin) \<Rightarrow>
     (case comparePassword admin pw of
        Inl err \<Rightarrow> (\<lparr>status = 500, body = Message ''Server error''\<rparr>, st)
      | Inr False \<Rightarrow> (\<lparr>status = 400, body = Message ''Invalid credentials''\<rparr>, st)
      | Inr True \<Rightarrow>
     (case resolve (jwtSecret module_scope) of
        Inl err \<Rightarrow> (\<lparr>status = 500, body = Message ''Server error''\<rparr>, st)
      | Inr secret \<Rightarrow>
     (case jwt_sign
             ((''id'', IdClaim (doc_id admin))
              # (case get_property admin ''username'' of
                   JStr u \<Rightarrow> [(''username'', TextClaim u)]
                 | _ \<Rightarrow> []))
             secret ''1h'' now of
        Inl err \<Rightarrow> (\<lparr>status = 500, body = Message ''Server error''\<rparr>, st)
      | Inr token \<Rightarrow>
     (case save model st (set_property admin ''token'' (JTok token)) of
        Inl err \<Rightarrow> (\<lparr>status = 500, body = Message ''Server error''\<rparr>, st)
      | Inr st' \<Rightarrow> (\<lparr>status = 200, body = TokenBody (JTok token)\<rparr>, st')))))))"

text \<open>\<^verbatim>\<open>GET /admin/login\<close>, lines 243 to 257. Its first statement, line 247, evaluates
  \<^verbatim>\<open>Admin\<close> as well.\<close>

definition admin_token :: "state \<Rightarrow> string option \<Rightarrow> response" where
  "admin_token st un =
     (case resolve (Admin module_scope) of
        Inl err \<Rightarrow> \<lparr>status = 500, body = Message ''Server error''\<rparr>
      | Inr model \<Rightarrow>
     (case findOne model st (username_filter un) of
        Inl err \<Rightarrow> \<lparr>status = 500, body = Message ''Server error''\<rparr>
      | Inr None \<Rightarrow> \<lparr>status = 400, body = Message ''Token not found''\<rparr>
      | Inr (Some admin) \<Rightarrow>
          if \<not> truthy (get_property admin ''token'')
          then \<lparr>status = 400, body = Message ''Token not found''\<rparr>
          else \<lparr>status = 200, body = TokenBody (get_property admin ''token'')\<rparr>))"


section \<open>Notions the properties are stated with\<close>

text \<open>A request brings a file for a field when one of its parts names the field and has a
  file name.\<close>

definition has_file :: "string \<Rightarrow> request \<Rightarrow> bool" where
  "has_file n req = list_ex (\<lambda>p. fieldname p = n \<and> originalname p \<noteq> []) (parts req)"

text \<open>One of the five inputs of a publication is absent.\<close>

definition missing_input :: "request \<Rightarrow> bool" where
  "missing_input req =
     (body_courseName req = None \<or> body_description req = None \<or> body_price req = None
      \<or> \<not> has_file ''videoPreview'' req \<or> \<not> has_file ''fullVideo'' req)"

text \<open>A price below zero.\<close>

definition negative :: "number \<Rightarrow> bool" where
  "negative x = (case x of Finite q \<Rightarrow> q < 0 | PosInfinity \<Rightarrow> False | NegInfinity \<Rightarrow> True)"

section \<open>Example data\<close>

text \<open>
  An environment, a store and a request to run the routes on. In the environment
  \<^verbatim>\<open>Number\<close> has no value outside the signed decimal integers (the examples use no other
  price text). In the store the password of the admin stands for the hash of \<^verbatim>\<open>pw\<close>.
\<close>

definition example_env :: env where
  "example_env = \<lparr>runSettersOnQuery = True, number_other = (\<lambda>s. None)\<rparr>"

definition example_state :: state where
  "example_state =
     \<lparr>courses = [],
      users = [\<lparr>u_id = [0,0,0,0,0,0,0,0,0,0,0,1], u_username = ''ann'',
                u_email = ''ann@x.com'', u_password = ''p1''\<rparr>],
      admins = [\<lparr>a_id = [0,0,0,0,0,0,0,0,0,0,0,2],
                 a_keys = [(''username'', JStr ''root''), (''password'', JStr ''bcrypt:pw'')]\<rparr>],
      uploads = Map.empty,
      online = True\<rparr>"

definition example_clock :: "nat \<Rightarrow> nat" where
  "example_clock k = 1700000000000 + k"

definition example_request :: request where
  "example_request =
     \<lparr>multipart = True, protocol = ''http'', host = Some ''localhost:5000'',
      body_courseName = Some ''Intro'', body_description = Some ''Basics'',
      body_price = Some ''10'',
      parts = [\<lparr>fieldname = ''videoPreview'', originalname = ''sample.mp4'',
                 mimetype = ''video/mp4'', bytes = 1024\<rparr>,
               \<lparr>fieldname = ''fullVideo'', originalname = ''sample2.mp4'',
                 mimetype = ''video/mp4'', bytes = 2048\<rparr>]\<rparr>"

definition example_course :: course where
  "example_course =
     \<lparr>c_id = [0,0,0,0,0,0,0,0,0,0,0,3], courseName = ''Intro'', description = ''Basics'',
      price = Finite 10,
      videoPreview = ''http://localhost:5000/uploads/1700000000000-sample.mp4'',
      fullVideo = ''http://localhost:5000/uploads/1700000000001-sample2.mp4''\<rparr>"


section \<open>The upload middleware\<close>

lemma removeUploadedFiles_apply:
  "removeUploadedFiles fs d n = (if n \<in> filename ` set fs then None else d n)"
  unfolding removeUploadedFiles_def
  by (induction fs arbitrary: d) auto

lemma upload_parts_error_le:
  assumes "upload_parts now k ps left acc d = (Inl e, d')"
    and "\<And>n. n \<notin> filename ` set acc \<Longrightarrow> d n = d0 n"
  shows "d' \<subseteq>\<^sub>m d0"
  using assms
proof (induction ps arbitrary: k left acc d)
  case Nil
  then show ?case by simp
next
  case (Cons p ps)
  show ?case
  proof (cases "originalname p = []")
    case True
    with Cons.prems(1) have "upload_parts now (Suc k) ps left acc d = (Inl e, d')" by simp
    then show ?thesis using Cons.IH Cons.prems(2) by blast
  next
    case named: False
    show ?thesis
    proof (cases "left (fieldname p) = 0")
      case True
      with named Cons.prems(1) have "d' = removeUploadedFiles acc d" by simp
      then show ?thesis using Cons.prems(2)
        by (auto simp: map_le_def removeUploadedFiles_apply dom_def)
    next
      case room: False
      show ?thesis
      proof (cases "fileFilter p")
        case (Inl x)
        with named room Cons.prems(1) have "d' = removeUploadedFiles acc d" by simp
        then show ?thesis using Cons.prems(2)
          by (auto simp: map_le_def removeUploadedFiles_apply dom_def)
      next
        case (Inr ok)
        show ?thesis
        proof (cases "fileSize < bytes p")
          case True
          with named room Inr Cons.prems(1)
          have "d' = removeUploadedFiles
                  (acc @ [\<lparr>part = p, filename = storage_filename (now k) p, stored_bytes = fileSize\<rparr>])
                  (d(storage_filename (now k) p \<mapsto> fileSize))" by simp
          then show ?thesis using Cons.prems(2)
            by (auto simp: map_le_def removeUploadedFiles_apply dom_def)
        next
          case False
          with named room Inr Cons.prems(1)
          have step: "upload_parts now (Suc k) ps (left(fieldname p := left (fieldname p) - 1))
                 (acc @ [\<lparr>part = p, filename = storage_filename (now k) p, stored_bytes = bytes p\<rparr>])
                 (d(storage_filename (now k) p \<mapsto> bytes p)) = (Inl e, d')" by simp
          show ?thesis
          proof (rule Cons.IH [OF step])
            fix n
            assume "n \<notin> filename ` set (acc @ [\<lparr>part = p, filename = storage_filename (now k) p, stored_bytes = bytes p\<rparr>])"
            then show "(d(storage_filename (now k) p \<mapsto> bytes p)) n = d0 n"
              using Cons.prems(2) by auto
          qed
        qed
      qed
    qed
  qed
qed

lemma upload_parts_bad_part:
  assumes "p \<in> set ps" "originalname p \<noteq> []"
    and "mimetype p \<notin> set allowedTypes \<or> fileSize < bytes p"
  shows "\<exists>e. fst (upload_parts now k ps left acc d) = Inl e"
  using assms
proof (induction ps arbitrary: k left acc d)
  case Nil
  then show ?case by simp
next
  case (Cons q qs)
  show ?case
  proof (cases "q = p")
    case True
    with Cons.prems show ?thesis
      by (auto simp: fileFilter_def split: sum.splits)
  next
    case False
    with Cons.prems have "p \<in> set qs" by simp
    from Cons.IH [OF this Cons.prems(2,3)] show ?thesis
      by (auto split: sum.splits)
  qed
qed

lemma upload_parts_Cons_ok:
  assumes "upload_parts now k (p # ps) left acc d = (Inr files, d')"
  shows "(originalname p = [] \<and> upload_parts now (Suc k) ps left acc d = (Inr files, d'))
       \<or> (originalname p \<noteq> [] \<and> left (fieldname p) \<noteq> 0 \<and> mimetype p \<in> set allowedTypes
            \<and> bytes p \<le> fileSize
            \<and> upload_parts now (Suc k) ps (left(fieldname p := left (fieldname p) - 1))
                 (acc @ [\<lparr>part = p, filename = storage_filename (now k) p, stored_bytes = bytes p\<rparr>])
                 (d(storage_filename (now k) p \<mapsto> bytes p)) = (Inr files, d'))"
  using assms by (auto simp: fileFilter_def split: if_splits sum.splits)

lemma upload_parts_ok_dom:
  "upload_parts now k ps left acc d = (Inr files, d') \<Longrightarrow> dom d \<subseteq> dom d'"
proof (induction ps arbitrary: k left acc d)
  case Nil
  then show ?case by simp
next
  case (Cons p ps)
  from upload_parts_Cons_ok [OF Cons.prems] show ?case
  proof (elim disjE conjE)
    assume "upload_parts now (Suc k) ps left acc d = (Inr files, d')"
    then show ?thesis by (rule Cons.IH)
  next
    assume "upload_parts now (Suc k) ps (left(fieldname p := left (fieldname p) - 1))
                 (acc @ [\<lparr>part = p, filename = storage_filename (now k) p, stored_bytes = bytes p\<rparr>])
                 (d(storage_filename (now k) p \<mapsto> bytes p)) = (Inr files, d')"
    from Cons.IH [OF this]
    have "dom (d(storage_filename (now k) p \<mapsto> bytes p)) \<subseteq> dom d'" .
    moreover have "dom d \<subseteq> dom (d(storage_filename (now k) p \<mapsto> bytes p))"
      by (simp add: subset_insertI)
    ultimately show ?thesis by (rule order_trans [rotated])
  qed
qed

lemma upload_parts_ok_written:
  "upload_parts now k ps left acc d = (Inr files, d') \<Longrightarrow> i < length ps
     \<Longrightarrow> originalname (ps ! i) \<noteq> []
     \<Longrightarrow> storage_filename (now (k + i)) (ps ! i) \<in> dom d'"
proof (induction ps arbitrary: k left acc d i)
  case Nil
  then show ?case by simp
next
  case (Cons p ps)
  from upload_parts_Cons_ok [OF Cons.prems(1)] show ?case
  proof (elim disjE conjE)
    assume skip: "originalname p = []"
      and rest: "upload_parts now (Suc k) ps left acc d = (Inr files, d')"
    from skip Cons.prems(3) obtain j where j: "i = Suc j" by (cases i) auto
    with Cons.prems have "j < length ps" "originalname (ps ! j) \<noteq> []" by auto
    from Cons.IH [OF rest this] j show ?thesis by simp
  next
    assume rest: "upload_parts now (Suc k) ps (left(fieldname p := left (fieldname p) - 1))
                 (acc @ [\<lparr>part = p, filename = storage_filename (now k) p, stored_bytes = bytes p\<rparr>])
                 (d(storage_filename (now k) p \<mapsto> bytes p)) = (Inr files, d')"
    show ?thesis
    proof (cases i)
      case 0
      from upload_parts_ok_dom [OF rest] 0 show ?thesis by auto
    next
      case (Suc j)
      with Cons.prems have "j < length ps" "originalname (ps ! j) \<noteq> []" by auto
      from Cons.IH [OF rest this] Suc show ?thesis by simp
    qed
  qed
qed

lemma upload_parts_ok_files:
  "upload_parts now k ps left acc d = (Inr files, d') \<Longrightarrow> f \<in> set files
     \<Longrightarrow> f \<in> set acc
        \<or> (\<exists>i<length ps. originalname (ps ! i) \<noteq> []
              \<and> f = \<lparr>part = ps ! i, filename = storage_filename (now (k + i)) (ps ! i),
                      stored_bytes = bytes (ps ! i)\<rparr>)"
proof (induction ps arbitrary: k left acc d)
  case Nil
  then show ?case by simp
next
  case (Cons p ps)
  from upload_parts_Cons_ok [OF Cons.prems(1)] show ?case
  proof (elim disjE conjE)
    assume rest: "upload_parts now (Suc k) ps left acc d = (Inr files, d')"
    from Cons.IH [OF rest Cons.prems(2)] show ?thesis
    proof
      assume "f \<in> set acc" then show ?thesis by simp
    next
      assume "\<exists>i<length ps. originalname (ps ! i) \<noteq> []
              \<and> f = \<lparr>part = ps ! i, filename = storage_filename (now (Suc k + i)) (ps ! i),
                      stored_bytes = bytes (ps ! i)\<rparr>"
      then obtain i where "i < length ps" "originalname (ps ! i) \<noteq> []"
        "f = \<lparr>part = ps ! i, filename = storage_filename (now (Suc k + i)) (ps ! i),
                      stored_bytes = bytes (ps ! i)\<rparr>" by blast
      then have "Suc i < length (p # ps) \<and> originalname ((p # ps) ! Suc i) \<noteq> []
         \<and> f = \<lparr>part = (p # ps) ! Suc i, filename = storage_filename (now (k + Suc i)) ((p # ps) ! Suc i),
                      stored_bytes = bytes ((p # ps) ! Suc i)\<rparr>" by simp
      then show ?thesis by blast
    qed
  next
    assume named: "originalname p \<noteq> []"
      and rest: "upload_parts now (Suc k) ps (left(fieldname p := left (fieldname p) - 1))
                 (acc @ [\<lparr>part = p, filename = storage_filename (now k) p, stored_bytes = bytes p\<rparr>])
                 (d(storage_filename (now k) p \<mapsto> bytes p)) = (Inr files, d')"
    from Cons.IH [OF rest Cons.prems(2)] show ?thesis
    proof
      assume "f \<in> set (acc @ [\<lparr>part = p, filename = storage_filename (now k) p, stored_bytes = bytes p\<rparr>])"
      then have "f \<in> set acc \<or> f = \<lparr>part = p, filename = storage_filename (now k) p, stored_bytes = bytes p\<rparr>"
        by auto
      then show ?thesis
      proof
        assume "f \<in> set acc" then show ?thesis by simp
      next
        assume "f = \<lparr>part = p, filename = storage_filename (now k) p, stored_bytes = bytes p\<rparr>"
        with named have "0 < length (p # ps) \<and> originalname ((p # ps) ! 0) \<noteq> []
         \<and> f = \<lparr>part = (p # ps) ! 0, filename = storage_filename (now (k + 0)) ((p # ps) ! 0),
                      stored_bytes = bytes ((p # ps) ! 0)\<rparr>" by simp
        then show ?thesis by blast
      qed
    next
      assume "\<exists>i<length ps. originalname (ps ! i) \<noteq> []
              \<and> f = \<lparr>part = ps ! i, filename = storage_filename (now (Suc k + i)) (ps ! i),
                      stored_bytes = bytes (ps ! i)\<rparr>"
      then obtain i where "i < length ps" "originalname (ps ! i) \<noteq> []"
        "f = \<lparr>part = ps ! i, filename = storage_filename (now (Suc k + i)) (ps ! i),
                      stored_bytes = bytes (ps ! i)\<rparr>" by blast
      then have "Suc i < length (p # ps) \<and> originalname ((p # ps) ! Suc i) \<noteq> []
         \<and> f = \<lparr>part = (p # ps) ! Suc i, filename = storage_filename (now (k + Suc i)) ((p # ps) ! Suc i),
                      stored_bytes = bytes ((p # ps) ! Suc i)\<rparr>" by simp
      then show ?thesis by blast
    qed
  qed
qed

lemma upload_parts_ok_frame:
  "upload_parts now k ps left acc d = (Inr files, d')
     \<Longrightarrow> (\<And>j. j < length ps \<Longrightarrow> originalname (ps ! j) \<noteq> []
            \<Longrightarrow> storage_filename (now (k + j)) (ps ! j) \<noteq> n)
     \<Longrightarrow> d' n = d n"
proof (induction ps arbitrary: k left acc d)
  case Nil
  then show ?case by simp
next
  case (Cons p ps)
  have later: "storage_filename (now (Suc k + j)) (ps ! j) \<noteq> n"
    if "j < length ps" "originalname (ps ! j) \<noteq> []" for j
    using Cons.prems(2) [of "Suc j"] that by simp
  from upload_parts_Cons_ok [OF Cons.prems(1)] show ?case
  proof (elim disjE conjE)
    assume "upload_parts now (Suc k) ps left acc d = (Inr files, d')"
    from Cons.IH [OF this later] show ?thesis by simp
  next
    assume named: "originalname p \<noteq> []"
      and rest: "upload_parts now (Suc k) ps (left(fieldname p := left (fieldname p) - 1))
                 (acc @ [\<lparr>part = p, filename = storage_filename (now k) p, stored_bytes = bytes p\<rparr>])
                 (d(storage_filename (now k) p \<mapsto> bytes p)) = (Inr files, d')"
    from Cons.prems(2) [of 0] named have "storage_filename (now k) p \<noteq> n" by simp
    with Cons.IH [OF rest later] show ?thesis by simp
  qed
qed

lemma upload_parts_ok_content:
  "upload_parts now k ps left acc d = (Inr files, d') \<Longrightarrow> i < length ps
     \<Longrightarrow> originalname (ps ! i) \<noteq> []
     \<Longrightarrow> (\<And>j. i < j \<Longrightarrow> j < length ps \<Longrightarrow> originalname (ps ! j) \<noteq> []
            \<Longrightarrow> storage_filename (now (k + j)) (ps ! j)
                  \<noteq> storage_filename (now (k + i)) (ps ! i))
     \<Longrightarrow> d' (storage_filename (now (k + i)) (ps ! i)) = Some (bytes (ps ! i))"
proof (induction ps arbitrary: k left acc d i)
  case Nil
  then show ?case by simp
next
  case (Cons p ps)
  from upload_parts_Cons_ok [OF Cons.prems(1)] show ?case
  proof (elim disjE conjE)
    assume skip: "originalname p = []"
      and rest: "upload_parts now (Suc k) ps left acc d = (Inr files, d')"
    from skip Cons.prems(3) obtain m where m: "i = Suc m" by (cases i) auto
    with Cons.prems have lt: "m < length ps" and nm: "originalname (ps ! m) \<noteq> []" by auto
    have later: "storage_filename (now (Suc k + j)) (ps ! j)
                  \<noteq> storage_filename (now (Suc k + m)) (ps ! m)"
      if "m < j" "j < length ps" "originalname (ps ! j) \<noteq> []" for j
      using Cons.prems(4) [of "Suc j"] that m by simp
    from Cons.IH [OF rest lt nm later] m show ?thesis by simp
  next
    assume rest: "upload_parts now (Suc k) ps (left(fieldname p := left (fieldname p) - 1))
                 (acc @ [\<lparr>part = p, filename = storage_filename (now k) p, stored_bytes = bytes p\<rparr>])
                 (d(storage_filename (now k) p \<mapsto> bytes p)) = (Inr files, d')"
    show ?thesis
    proof (cases i)
      case 0
      have "storage_filename (now (Suc k + j)) (ps ! j) \<noteq> storage_filename (now k) p"
        if "j < length ps" "originalname (ps ! j) \<noteq> []" for j
        using Cons.prems(4) [of "Suc j"] that 0 by simp
      from upload_parts_ok_frame [OF rest this] 0 show ?thesis by simp
    next
      case (Suc m)
      with Cons.prems have lt: "m < length ps" and nm: "originalname (ps ! m) \<noteq> []" by auto
      have later: "storage_filename (now (Suc k + j)) (ps ! j)
                  \<noteq> storage_filename (now (Suc k + m)) (ps ! m)"
        if "m < j" "j < length ps" "originalname (ps ! j) \<noteq> []" for j
        using Cons.prems(4) [of "Suc j"] that Suc by simp
      from Cons.IH [OF rest lt nm later] Suc show ?thesis by simp
    qed
  qed
qed

lemma first_file_Some:
  "first_file n fs = Some f \<Longrightarrow> f \<in> set fs \<and> fieldname (part f) = n"
  unfolding first_file_def by (auto simp: find_Some_iff)

lemma upload_ok_file:
  assumes "upload now ps d = (Inr files, d')" and "f \<in> set files"
  shows "\<exists>i<length ps. originalname (ps ! i) \<noteq> [] \<and> part f = ps ! i
           \<and> filename f = storage_filename (now i) (ps ! i)
           \<and> filename f \<in> dom d'"
proof -
  from assms have u: "upload_parts now 0 ps maxCounts [] d = (Inr files, d')"
    by (simp add: upload_def)
  from upload_parts_ok_files [OF u assms(2)]
  obtain i where i: "i < length ps" "originalname (ps ! i) \<noteq> []"
    and f: "f = \<lparr>part = ps ! i, filename = storage_filename (now (0 + i)) (ps ! i),
                  stored_bytes = bytes (ps ! i)\<rparr>"
    by auto
  from upload_parts_ok_written [OF u i] f have "filename f \<in> dom d'" by simp
  with i f show ?thesis by auto
qed

lemma upload_ok_first_file_None:
  assumes "upload now (parts req) d = (Inr files, d')" and "\<not> has_file n req"
  shows "first_file n files = None"
proof (rule ccontr)
  assume "first_file n files \<noteq> None"
  then obtain f where "first_file n files = Some f" by auto
  from first_file_Some [OF this] have f: "f \<in> set files" "fieldname (part f) = n" by auto
  from upload_ok_file [OF assms(1) f(1)] f(2)
  obtain i where "i < length (parts req)" "originalname (parts req ! i) \<noteq> []"
    "fieldname (parts req ! i) = n" by auto
  then have "has_file n req"
    unfolding has_file_def list_ex_iff by (metis nth_mem)
  with assms(2) show False by simp
qed


section \<open>Publishing: what a response tells\<close>

lemma post_courses_created:
  assumes "fst (post_courses e now fresh st req) = Responded r" and "status r = 201"
  shows "\<exists>files d cn ds pr vp fv c.
           multipart req
         \<and> upload now (parts req) (uploads st) = (Inr files, d)
         \<and> body_courseName req = Some cn \<and> body_description req = Some ds
         \<and> body_price req = Some pr
         \<and> first_file ''videoPreview'' files = Some vp
         \<and> first_file ''fullVideo'' files = Some fv
         \<and> save_course e st fresh cn ds pr (media_url req (filename vp))
               (media_url req (filename fv)) = Inr c
         \<and> post_courses e now fresh st req
             = (Responded \<lparr>status = 201, body = Created ''Upload successful!'' c\<rparr>,
                st\<lparr>uploads := d, courses := courses st @ [c]\<rparr>)"
  using assms
  by (auto simp: post_courses_def split: if_splits prod.splits sum.splits option.splits)

lemma post_courses_courses:
  "courses (snd (post_courses e now fresh st req)) = courses st
   \<or> (\<exists>r. fst (post_courses e now fresh st req) = Responded r \<and> status r = 201)"
  by (auto simp: post_courses_def split: if_splits prod.splits sum.splits option.splits)

lemma digit_char_values:
  "digit_char 0 = CHR ''0''" "digit_char 1 = CHR ''1''" "digit_char 2 = CHR ''2''"
  "digit_char 3 = CHR ''3''" "digit_char 4 = CHR ''4''" "digit_char 5 = CHR ''5''"
  "digit_char 6 = CHR ''6''" "digit_char 7 = CHR ''7''" "digit_char 8 = CHR ''8''"
  "digit_char 9 = CHR ''9''" "digit_char (Suc 0) = CHR ''1''"
  by code_simp+

lemmas run_simps = post_courses_def upload_def maxCounts_def fileFilter_def allowedTypes_def
  fileSize_def storage_filename_def removeUploadedFiles_def first_file_def media_url_def
  save_course_def Number_def signed_decimal_def short_digits_def is_digit_def digits_value_def
  digit_char_values decimal.simps example_env_def example_state_def example_request_def example_clock_def
  example_course_def

lemma example_publish:
  "fst (post_courses example_env example_clock [0,0,0,0,0,0,0,0,0,0,0,3] example_state
          example_request)
  = Responded \<lparr>status = 201, body = Created ''Upload successful!'' example_course\<rparr>"
  by (simp add: run_simps)

lemma Number_negative:
  "short_digits ds \<Longrightarrow> Number other (CHR ''-'' # ds) = Some (Finite (- of_nat (digits_value ds)))"
  by (simp add: Number_def signed_decimal_def)



section \<open>The admin routes\<close>


lemma admin_token_answer:
  "admin_token st un = \<lparr>status = 500, body = Message ''Server error''\<rparr>"
  by (simp add: admin_token_def module_scope_def resolve_def)

section \<open>The properties\<close>

text \<open>
  C1. The claim is that a login with the right password answers 200 with a token, stores
  it, and that the token route then returns it. On the code neither route gets that far:
  in the example store the admin \<^verbatim>\<open>root\<close> is there with the hash of \<^verbatim>\<open>pw\<close>, the login answers
  500 \<^verbatim>\<open>Server error\<close> and leaves the collection as it was, and the request for the token of
  \<^verbatim>\<open>root\<close> that follows answers 500 too. Line 202 (and line 247) evaluates \<^verbatim>\<open>Admin\<close>, which
  nothing binds; the \<^verbatim>\<open>ReferenceError\<close> goes to the \<^verbatim>\<open>catch\<close>.
\<close>

theorem admin_login_answers_500:
  "fst (admin_login 5000 example_state (Some ''root'') (Some ''pw''))
     = \<lparr>status = 500, body = Message ''Server error''\<rparr>
   \<and> admins (snd (admin_login 5000 example_state (Some ''root'') (Some ''pw'')))
     = [\<lparr>a_id = [0,0,0,0,0,0,0,0,0,0,0,2],
         a_keys = [(''username'', JStr ''root''), (''password'', JStr ''bcrypt:pw'')]\<rparr>]
   \<and> admin_token (snd (admin_login 5000 example_state (Some ''root'') (Some ''pw'')))
        (Some ''root'')
     = \<lparr>status = 500, body = Message ''Server error''\<rparr>"
  by (simp add: admin_login_def admin_token_def module_scope_def resolve_def example_state_def)

text \<open>
  C2, as amended. A request that lacks one of the five inputs never stores a course. When
  it is multipart and the upload middleware accepts all its file parts, its answer is the
  400 missing-field error. (When the middleware refuses a part, the answer is the one of
  C3 instead.)
\<close>

theorem publish_missing_input:
  assumes "missing_input req"
  shows "courses (snd (post_courses e now fresh st req)) = courses st
       \<and> (multipart req \<and> (\<exists>files. fst (upload now (parts req) (uploads st)) = Inr files)
            \<longrightarrow> fst (post_courses e now fresh st req)
                  = Responded \<lparr>status = 400, body = Message ''All fields are required.''\<rparr>)"
proof -
  have bad: "fst (post_courses e now fresh st req)
                  = Responded \<lparr>status = 400, body = Message ''All fields are required.''\<rparr>
             \<and> courses (snd (post_courses e now fresh st req)) = courses st"
    if mp: "multipart req" and up: "upload now (parts req) (uploads st) = (Inr files, d)"
    for files d
  proof -
    from assms have "body_courseName req = None \<or> body_description req = None
      \<or> body_price req = None \<or> \<not> has_file ''videoPreview'' req
      \<or> \<not> has_file ''fullVideo'' req"
      by (simp only: missing_input_def)
    then show ?thesis
    proof (elim disjE)
      assume "body_courseName req = None"
      with mp up show ?thesis by (simp add: post_courses_def)
    next
      assume "body_description req = None"
      with mp up show ?thesis by (simp add: post_courses_def split: option.splits)
    next
      assume "body_price req = None"
      with mp up show ?thesis by (simp add: post_courses_def split: option.splits)
    next
      assume "\<not> has_file ''videoPreview'' req"
      from upload_ok_first_file_None [OF up this] mp up show ?thesis
        by (simp add: post_courses_def split: option.splits)
    next
      assume "\<not> has_file ''fullVideo'' req"
      from upload_ok_first_file_None [OF up this] mp up show ?thesis
        by (simp add: post_courses_def split: option.splits)
    qed
  qed
  have "courses (snd (post_courses e now fresh st req)) = courses st"
  proof (cases "multipart req")
    case False
    then show ?thesis by (simp add: post_courses_def)
  next
    case True
    show ?thesis
    proof (cases "upload now (parts req) (uploads st)")
      case (Pair res d)
      show ?thesis
      proof (cases res)
        case (Inl err)
        with True Pair show ?thesis by (simp add: post_courses_def)
      next
        case (Inr files)
        with bad [OF True] Pair show ?thesis by simp
      qed
    qed
  qed
  moreover have "fst (post_courses e now fresh st req)
                  = Responded \<lparr>status = 400, body = Message ''All fields are required.''\<rparr>"
    if "multipart req" "fst (upload now (parts req) (uploads st)) = Inr files" for files
    using bad [OF that(1), of files "snd (upload now (parts req) (uploads st))"] that(2)
    by (cases "upload now (parts req) (uploads st)") auto
  ultimately show ?thesis by blast
qed

theorem publish_missing_input_witness:
  "courses (snd (post_courses example_env example_clock [0,0,0,0,0,0,0,0,0,0,0,3] example_state
                   (example_request\<lparr>parts := [\<lparr>fieldname = ''videoPreview'',
                       originalname = ''sample.mp4'', mimetype = ''video/mp4'',
                       bytes = 1024\<rparr>]\<rparr>)))
     = courses example_state
   \<and> fst (post_courses example_env example_clock [0,0,0,0,0,0,0,0,0,0,0,3] example_state
            (example_request\<lparr>parts := [\<lparr>fieldname = ''videoPreview'',
                originalname = ''sample.mp4'', mimetype = ''video/mp4'', bytes = 1024\<rparr>]\<rparr>))
     = Responded \<lparr>status = 400, body = Message ''All fields are required.''\<rparr>"
proof -
  have absent: "missing_input (example_request\<lparr>parts := [\<lparr>fieldname = ''videoPreview'',
      originalname = ''sample.mp4'', mimetype = ''video/mp4'', bytes = 1024\<rparr>]\<rparr>)"
    by (simp add: missing_input_def has_file_def)
  have mp: "multipart (example_request\<lparr>parts := [\<lparr>fieldname = ''videoPreview'',
      originalname = ''sample.mp4'', mimetype = ''video/mp4'', bytes = 1024\<rparr>]\<rparr>)"
    by (simp add: example_request_def)
  have up: "\<exists>files. fst (upload example_clock
        (parts (example_request\<lparr>parts := [\<lparr>fieldname = ''videoPreview'',
            originalname = ''sample.mp4'', mimetype = ''video/mp4'', bytes = 1024\<rparr>]\<rparr>))
        (uploads example_state)) = Inr files"
    by (simp add: run_simps)
  from publish_missing_input [OF absent, of example_env example_clock
      "[0,0,0,0,0,0,0,0,0,0,0,3]" example_state] mp up
  show ?thesis by blast
qed

theorem missing_input_with_refused_file:
  "missing_input (example_request\<lparr>body_courseName := None,
       parts := [\<lparr>fieldname = ''videoPreview'', originalname = ''notes.txt'',
                  mimetype = ''text/plain'', bytes = 10\<rparr>]\<rparr>)
   \<and> fst (post_courses example_env example_clock [0,0,0,0,0,0,0,0,0,0,0,3] example_state
            (example_request\<lparr>body_courseName := None,
               parts := [\<lparr>fieldname = ''videoPreview'', originalname = ''notes.txt'',
                          mimetype = ''text/plain'', bytes = 10\<rparr>]\<rparr>))
     = Responded \<lparr>status = 500, body = ErrorPage\<rparr>"
  by (simp add: run_simps missing_input_def)

text \<open>
  C3, as amended. When a multipart request has a file part whose declared media type is
  not one of the two allowed, or whose content is over 100 MiB, the upload fails: the
  route handler is not run, no course is stored, the upload directory gains no file and
  keeps none of the files the request wrote, and the answer comes from the default error
  handler, with status 500 and no JSON body.
\<close>

theorem rejected_upload:
  assumes "multipart req" and "p \<in> set (parts req)" and "originalname p \<noteq> []"
    and "mimetype p \<notin> set allowedTypes \<or> fileSize < bytes p"
  shows "fst (post_courses e now fresh st req) = Responded \<lparr>status = 500, body = ErrorPage\<rparr>
       \<and> uploads (snd (post_courses e now fresh st req)) \<subseteq>\<^sub>m uploads st
       \<and> courses (snd (post_courses e now fresh st req)) = courses st"
proof -
  from upload_parts_bad_part [OF assms(2,3,4)]
  obtain err where "fst (upload_parts now 0 (parts req) maxCounts [] (uploads st)) = Inl err"
    by blast
  then obtain d where u: "upload_parts now 0 (parts req) maxCounts [] (uploads st) = (Inl err, d)"
    by (cases "upload_parts now 0 (parts req) maxCounts [] (uploads st)") auto
  have "d \<subseteq>\<^sub>m uploads st"
    by (rule upload_parts_error_le [OF u]) simp
  with u assms(1) show ?thesis
    by (simp add: post_courses_def upload_def)
qed

theorem rejected_upload_witness:
  "fst (post_courses example_env example_clock [0,0,0,0,0,0,0,0,0,0,0,3] example_state
          (example_request\<lparr>parts := [\<lparr>fieldname = ''videoPreview'',
                originalname = ''sample.mp4'', mimetype = ''video/mp4'', bytes = 1024\<rparr>,
              \<lparr>fieldname = ''fullVideo'', originalname = ''long.mp4'',
                mimetype = ''video/mp4'', bytes = 104857601\<rparr>]\<rparr>))
     = Responded \<lparr>status = 500, body = ErrorPage\<rparr>
   \<and> uploads (snd (post_courses example_env example_clock [0,0,0,0,0,0,0,0,0,0,0,3] example_state
          (example_request\<lparr>parts := [\<lparr>fieldname = ''videoPreview'',
                originalname = ''sample.mp4'', mimetype = ''video/mp4'', bytes = 1024\<rparr>,
              \<lparr>fieldname = ''fullVideo'', originalname = ''long.mp4'',
                mimetype = ''video/mp4'', bytes = 104857601\<rparr>]\<rparr>)))
       \<subseteq>\<^sub>m uploads example_state
   \<and> courses (snd (post_courses example_env example_clock [0,0,0,0,0,0,0,0,0,0,0,3] example_state
          (example_request\<lparr>parts := [\<lparr>fieldname = ''videoPreview'',
                originalname = ''sample.mp4'', mimetype = ''video/mp4'', bytes = 1024\<rparr>,
              \<lparr>fieldname = ''fullVideo'', originalname = ''long.mp4'',
                mimetype = ''video/mp4'', bytes = 104857601\<rparr>]\<rparr>)))
     = courses example_state"
proof -
  have mp: "multipart (example_request\<lparr>parts := [\<lparr>fieldname = ''videoPreview'',
                originalname = ''sample.mp4'', mimetype = ''video/mp4'', bytes = 1024\<rparr>,
              \<lparr>fieldname = ''fullVideo'', originalname = ''long.mp4'',
                mimetype = ''video/mp4'', bytes = 104857601\<rparr>]\<rparr>)"
    by (simp add: example_request_def)
  have there: "\<lparr>fieldname = ''fullVideo'', originalname = ''long.mp4'',
                mimetype = ''video/mp4'', bytes = 104857601\<rparr>
      \<in> set (parts (example_request\<lparr>parts := [\<lparr>fieldname = ''videoPreview'',
                originalname = ''sample.mp4'', mimetype = ''video/mp4'', bytes = 1024\<rparr>,
              \<lparr>fieldname = ''fullVideo'', originalname = ''long.mp4'',
                mimetype = ''video/mp4'', bytes = 104857601\<rparr>]\<rparr>))"
    by simp
  have named: "originalname \<lparr>fieldname = ''fullVideo'', originalname = ''long.mp4'',
                mimetype = ''video/mp4'', bytes = 104857601\<rparr> \<noteq> []"
    by simp
  have large: "mimetype \<lparr>fieldname = ''fullVideo'', originalname = ''long.mp4'',
                mimetype = ''video/mp4'', bytes = 104857601\<rparr> \<notin> set allowedTypes
      \<or> fileSize < bytes \<lparr>fieldname = ''fullVideo'', originalname = ''long.mp4'',
                mimetype = ''video/mp4'', bytes = 104857601\<rparr>"
    by (simp add: fileSize_def)
  show ?thesis
    by (rule rejected_upload [OF mp there named large])
qed

theorem refused_type_answered_500:
  "mimetype \<lparr>fieldname = ''videoPreview'', originalname = ''cover.png'',
             mimetype = ''image/png'', bytes = 2048\<rparr> \<notin> set allowedTypes
   \<and> fst (post_courses example_env example_clock [0,0,0,0,0,0,0,0,0,0,0,3] example_state
            (example_request\<lparr>parts := [\<lparr>fieldname = ''videoPreview'',
                  originalname = ''cover.png'', mimetype = ''image/png'', bytes = 2048\<rparr>,
                \<lparr>fieldname = ''fullVideo'', originalname = ''sample2.mp4'',
                  mimetype = ''video/mp4'', bytes = 2048\<rparr>]\<rparr>))
     = Responded \<lparr>status = 500, body = ErrorPage\<rparr>"
  by (simp add: run_simps)

text \<open>
  C4. A login whose email matches no stored user and a login whose email matches a user
  but whose password is not that user's are answered alike; with the store reachable the
  answer of both is status 400 and the message \<^verbatim>\<open>Invalid email or password\<close>.
\<close>

theorem login_rejections_alike:
  assumes "\<forall>u\<in>set (users st). u_email u \<noteq> query_email e emA"
    and "\<exists>u\<in>set (users st). u_email u = query_email e emB"
    and "\<forall>u\<in>set (users st). u_email u = query_email e emB \<longrightarrow> Some (u_password u) \<noteq> pwB"
  shows "auth_login e nowA st (Some emA) pwA = auth_login e nowB st (Some emB) pwB
       \<and> (online st \<longrightarrow>
            auth_login e nowA st (Some emA) pwA
              = \<lparr>status = 400, body = Message ''Invalid email or password''\<rparr>)"
proof (cases "online st")
  case False
  then show ?thesis
    by (simp add: auth_login_def findOne_user_def)
next
  case True
  from assms(1) have "find (\<lambda>u. Some (u_email u) = map_option (query_email e) (Some emA)
                               \<and> Some (u_password u) = pwA) (users st) = None"
    by (auto simp: find_None_iff)
  with True have a: "auth_login e nowA st (Some emA) pwA
           = \<lparr>status = 400, body = Message ''Invalid email or password''\<rparr>"
    by (simp add: auth_login_def findOne_user_def)
  from assms(3) have "find (\<lambda>u. Some (u_email u) = map_option (query_email e) (Some emB)
                               \<and> Some (u_password u) = pwB) (users st) = None"
    by (auto simp: find_None_iff)
  with True have b: "auth_login e nowB st (Some emB) pwB
           = \<lparr>status = 400, body = Message ''Invalid email or password''\<rparr>"
    by (simp add: auth_login_def findOne_user_def)
  from a b show ?thesis by simp
qed

theorem login_rejections_alike_witness:
  "auth_login example_env 5000 example_state (Some ''bob@x.com'') (Some ''p1'')
     = auth_login example_env 9000 example_state (Some ''ann@x.com'') (Some ''p2'')
   \<and> auth_login example_env 5000 example_state (Some ''bob@x.com'') (Some ''p1'')
     = \<lparr>status = 400, body = Message ''Invalid email or password''\<rparr>"
proof -
  have bob: "query_email example_env ''bob@x.com'' = ''bob@x.com''"
    by code_simp
  have ann: "query_email example_env ''ann@x.com'' = ''ann@x.com''"
    by code_simp
  have up: "online example_state"
    by (simp add: example_state_def)
  have miss: "\<forall>u\<in>set (users example_state). u_email u \<noteq> query_email example_env ''bob@x.com''"
    by (simp add: bob) (simp add: example_state_def)
  have hit: "\<exists>u\<in>set (users example_state). u_email u = query_email example_env ''ann@x.com''"
    by (simp add: ann) (simp add: example_state_def)
  have wrong: "\<forall>u\<in>set (users example_state).
      u_email u = query_email example_env ''ann@x.com'' \<longrightarrow> Some (u_password u) \<noteq> Some ''p2''"
    by (simp add: example_state_def)
  from login_rejections_alike [OF miss hit wrong, of 5000 "Some ''p1''" 9000] up
  show ?thesis by blast
qed



text \<open>
  C6, as amended. \<^verbatim>\<open>GET /courses/:id\<close> with an identifier that is well formed and
  matches no stored course answers 404 \<^verbatim>\<open>Course not found\<close> (the store being reachable);
  with an identifier that is not well formed, the lookup throws a cast error, which the
  handler's only \<^verbatim>\<open>catch\<close> answers with 500 \<^verbatim>\<open>Server error\<close>.
\<close>

theorem get_course_failures:
  "(castObjectId i = None
      \<longrightarrow> get_course st i = \<lparr>status = 500, body = Message ''Server error''\<rparr>)
   \<and> (online st \<and> castObjectId i = Some k \<and> find (\<lambda>c. c_id c = k) (courses st) = None
      \<longrightarrow> get_course st i = \<lparr>status = 404, body = Message ''Course not found''\<rparr>)"
  by (simp add: get_course_def findById_def)

theorem get_course_failures_witness:
  "get_course example_state ''650000000000000000000001'' = \<lparr>status = 404, body = Message ''Course not found''\<rparr>
   \<and> get_course example_state ''42'' = \<lparr>status = 500, body = Message ''Server error''\<rparr>"
proof -
  have bad: "castObjectId ''42'' = None"
    by (simp add: castObjectId_def)
  have good: "online example_state
      \<and> castObjectId ''650000000000000000000001''
          = Some [101, 0, 0, 0, 0, 0, 0, 0, 0, 0, 0, 1]
      \<and> find (\<lambda>c. c_id c = [101, 0, 0, 0, 0, 0, 0, 0, 0, 0, 0, 1])
           (courses example_state) = None"
    by code_simp
  from get_course_failures [of "''42''" example_state] bad
  have "get_course example_state ''42'' = \<lparr>status = 500, body = Message ''Server error''\<rparr>"
    by blast
  moreover from get_course_failures [of "''650000000000000000000001''" example_state
      "[101, 0, 0, 0, 0, 0, 0, 0, 0, 0, 0, 1]"] good
  have "get_course example_state ''650000000000000000000001''
      = \<lparr>status = 404, body = Message ''Course not found''\<rparr>"
    by blast
  ultimately show ?thesis by simp
qed

theorem malformed_id_answered_500:
  "castObjectId ''xyz'' = None
   \<and> get_course example_state ''xyz'' = \<lparr>status = 500, body = Message ''Server error''\<rparr>
   \<and> \<not> status (get_course example_state ''xyz'') < 500"
  by (simp add: get_course_def findById_def castObjectId_def)

text \<open>
  C7. When a publication succeeds (status 201), every file part of the request is in the
  upload directory under the decimal text of the clock reading at its storage, a hyphen
  and the file name the client gave; the request has a part for \<^verbatim>\<open>videoPreview\<close> and a
  part for \<^verbatim>\<open>fullVideo\<close>, and each media URL of the stored course is the request's
  protocol, \<^verbatim>\<open>://\<close>, its Host header, \<^verbatim>\<open>/uploads/\<close> and the storage name of that part.
\<close>

theorem publish_names_and_urls:
  assumes "fst (post_courses e now fresh st req) = Responded r" and "status r = 201"
    and "host req = Some h"
  shows "(\<forall>k<length (parts req). originalname (parts req ! k) \<noteq> [] \<longrightarrow>
            decimal (now k) @ ''-'' @ originalname (parts req ! k)
              \<in> dom (uploads (snd (post_courses e now fresh st req))))
       \<and> (\<exists>i j c. i < length (parts req) \<and> j < length (parts req)
           \<and> fieldname (parts req ! i) = ''videoPreview''
           \<and> fieldname (parts req ! j) = ''fullVideo''
           \<and> body r = Created ''Upload successful!'' c
           \<and> courses (snd (post_courses e now fresh st req)) = courses st @ [c]
           \<and> videoPreview c = protocol req @ ''://'' @ h @ ''/uploads/''
               @ decimal (now i) @ ''-'' @ originalname (parts req ! i)
           \<and> fullVideo c = protocol req @ ''://'' @ h @ ''/uploads/''
               @ decimal (now j) @ ''-'' @ originalname (parts req ! j))"
proof -
  from post_courses_created [OF assms(1,2)]
  obtain files d cn ds pr vp fv c where
    up: "upload now (parts req) (uploads st) = (Inr files, d)"
    and vp: "first_file ''videoPreview'' files = Some vp"
    and fv: "first_file ''fullVideo'' files = Some fv"
    and sv: "save_course e st fresh cn ds pr (media_url req (filename vp))
               (media_url req (filename fv)) = Inr c"
    and res: "post_courses e now fresh st req
             = (Responded \<lparr>status = 201, body = Created ''Upload successful!'' c\<rparr>,
                st\<lparr>uploads := d, courses := courses st @ [c]\<rparr>)"
    by blast
  from first_file_Some [OF vp] have vp': "vp \<in> set files" "fieldname (part vp) = ''videoPreview''"
    by auto
  from first_file_Some [OF fv] have fv': "fv \<in> set files" "fieldname (part fv) = ''fullVideo''"
    by auto
  from upload_ok_file [OF up vp'(1)] obtain i where
    i: "i < length (parts req)" "part vp = parts req ! i"
       "filename vp = storage_filename (now i) (parts req ! i)" "filename vp \<in> dom d"
    by blast
  from upload_ok_file [OF up fv'(1)] obtain j where
    j: "j < length (parts req)" "part fv = parts req ! j"
       "filename fv = storage_filename (now j) (parts req ! j)" "filename fv \<in> dom d"
    by blast
  from sv have c: "videoPreview c = media_url req (filename vp)"
    "fullVideo c = media_url req (filename fv)"
    by (auto simp: save_course_def split: option.splits if_splits)
  from assms(1) res have r: "body r = Created ''Upload successful!'' c" by auto
  from up have u: "upload_parts now 0 (parts req) maxCounts [] (uploads st) = (Inr files, d)"
    by (simp add: upload_def)
  have "decimal (now k) @ ''-'' @ originalname (parts req ! k) \<in> dom d"
    if "k < length (parts req)" "originalname (parts req ! k) \<noteq> []" for k
    using upload_parts_ok_written [OF u that]
    by (simp add: storage_filename_def)
  with res have stored: "\<forall>k<length (parts req). originalname (parts req ! k) \<noteq> [] \<longrightarrow>
            decimal (now k) @ ''-'' @ originalname (parts req ! k)
              \<in> dom (uploads (snd (post_courses e now fresh st req)))"
    by simp
  have "i < length (parts req) \<and> j < length (parts req)
           \<and> fieldname (parts req ! i) = ''videoPreview''
           \<and> fieldname (parts req ! j) = ''fullVideo''
           \<and> body r = Created ''Upload successful!'' c
           \<and> courses (snd (post_courses e now fresh st req)) = courses st @ [c]
           \<and> videoPreview c = protocol req @ ''://'' @ h @ ''/uploads/''
               @ decimal (now i) @ ''-'' @ originalname (parts req ! i)
           \<and> fullVideo c = protocol req @ ''://'' @ h @ ''/uploads/''
               @ decimal (now j) @ ''-'' @ originalname (parts req ! j)"
    using i j vp' fv' c r res assms(3)
    by (simp add: media_url_def storage_filename_def)
  then have "\<exists>i j c. i < length (parts req) \<and> j < length (parts req)
           \<and> fieldname (parts req ! i) = ''videoPreview''
           \<and> fieldname (parts req ! j) = ''fullVideo''
           \<and> body r = Created ''Upload successful!'' c
           \<and> courses (snd (post_courses e now fresh st req)) = courses st @ [c]
           \<and> videoPreview c = protocol req @ ''://'' @ h @ ''/uploads/''
               @ decimal (now i) @ ''-'' @ originalname (parts req ! i)
           \<and> fullVideo c = protocol req @ ''://'' @ h @ ''/uploads/''
               @ decimal (now j) @ ''-'' @ originalname (parts req ! j)"
    by blast
  with stored show ?thesis by (rule conjI)
qed

theorem publish_names_and_urls_witness:
  "\<exists>i j c. i < length (parts example_request) \<and> j < length (parts example_request)
           \<and> fieldname (parts example_request ! i) = ''videoPreview''
           \<and> fieldname (parts example_request ! j) = ''fullVideo''
           \<and> body \<lparr>status = 201, body = Created ''Upload successful!'' example_course\<rparr>
               = Created ''Upload successful!'' c
           \<and> courses (snd (post_courses example_env example_clock
                  [0,0,0,0,0,0,0,0,0,0,0,3] example_state example_request))
               = courses example_state @ [c]
           \<and> videoPreview c = protocol example_request @ ''://'' @ ''localhost:5000''
               @ ''/uploads/'' @ decimal (example_clock i) @ ''-''
               @ originalname (parts example_request ! i)
           \<and> fullVideo c = protocol example_request @ ''://'' @ ''localhost:5000''
               @ ''/uploads/'' @ decimal (example_clock j) @ ''-''
               @ originalname (parts example_request ! j)"
proof -
  note created = example_publish
  have code: "status \<lparr>status = 201, body = Created ''Upload successful!'' example_course\<rparr> = 201"
    by simp
  have hdr: "host example_request = Some ''localhost:5000''"
    by (simp add: example_request_def)
  show ?thesis
    by (rule conjunct2 [OF publish_names_and_urls [OF created code hdr]])
qed

text \<open>
  C8, as amended. A course stored by a publication has a numeric price, the \<^verbatim>\<open>Number\<close>
  of the price text of its request. The sign of the price is not examined: whenever a
  request is published, the same request with a minus sign and up to fifteen digits as
  its price text is published too, and its stored price is minus the value of the digits.
\<close>

theorem published_price:
  assumes "fst (post_courses e now fresh st req) = Responded r" and "status r = 201"
  shows "(\<exists>pr c. body_price req = Some pr \<and> Number (number_other e) pr = Some (price c)
            \<and> body r = Created ''Upload successful!'' c
            \<and> courses (snd (post_courses e now fresh st req)) = courses st @ [c])
       \<and> (\<forall>ds. short_digits ds \<longrightarrow>
            (\<exists>c. fst (post_courses e now fresh st (req\<lparr>body_price := Some (CHR ''-'' # ds)\<rparr>))
                   = Responded \<lparr>status = 201, body = Created ''Upload successful!'' c\<rparr>
                \<and> courses (snd (post_courses e now fresh st
                                   (req\<lparr>body_price := Some (CHR ''-'' # ds)\<rparr>)))
                   = courses st @ [c]
                \<and> price c = Finite (- of_nat (digits_value ds))))"
proof -
  from post_courses_created [OF assms]
  obtain files d cn dsc pr vp fv c where
    mp: "multipart req"
    and up: "upload now (parts req) (uploads st) = (Inr files, d)"
    and cn: "body_courseName req = Some cn" and dsc: "body_description req = Some dsc"
    and pr: "body_price req = Some pr"
    and vp: "first_file ''videoPreview'' files = Some vp"
    and fv: "first_file ''fullVideo'' files = Some fv"
    and sv: "save_course e st fresh cn dsc pr (media_url req (filename vp))
               (media_url req (filename fv)) = Inr c"
    and res: "post_courses e now fresh st req
             = (Responded \<lparr>status = 201, body = Created ''Upload successful!'' c\<rparr>,
                st\<lparr>uploads := d, courses := courses st @ [c]\<rparr>)"
    by blast
  from sv have num: "Number (number_other e) pr = Some (price c)" and on: "online st"
    by (auto simp: save_course_def split: option.splits if_splits)
  from assms(1) res have r: "body r = Created ''Upload successful!'' c" by auto
  have first: "\<exists>pr c. body_price req = Some pr \<and> Number (number_other e) pr = Some (price c)
            \<and> body r = Created ''Upload successful!'' c
            \<and> courses (snd (post_courses e now fresh st req)) = courses st @ [c]"
    using pr num r res by auto
  from res mp up cn dsc pr vp fv have ne: "cn \<noteq> []" "dsc \<noteq> []"
    by (auto simp: post_courses_def split: if_splits)
  have second: "\<exists>c. fst (post_courses e now fresh st (req\<lparr>body_price := Some (CHR ''-'' # ds)\<rparr>))
                   = Responded \<lparr>status = 201, body = Created ''Upload successful!'' c\<rparr>
                \<and> courses (snd (post_courses e now fresh st
                                   (req\<lparr>body_price := Some (CHR ''-'' # ds)\<rparr>)))
                   = courses st @ [c]
                \<and> price c = Finite (- of_nat (digits_value ds))"
    if "short_digits ds" for ds
    using mp up cn dsc vp fv ne on Number_negative [OF that, of "number_other e"]
    by (simp add: post_courses_def save_course_def media_url_def)
  from first second show ?thesis by blast
qed

theorem published_price_witness:
  "(\<exists>pr c. body_price example_request = Some pr
        \<and> Number (number_other example_env) pr = Some (price c)
        \<and> body \<lparr>status = 201, body = Created ''Upload successful!'' example_course\<rparr>
            = Created ''Upload successful!'' c
        \<and> courses (snd (post_courses example_env example_clock [0,0,0,0,0,0,0,0,0,0,0,3]
                           example_state example_request))
            = courses example_state @ [c])
   \<and> (\<exists>c. fst (post_courses example_env example_clock [0,0,0,0,0,0,0,0,0,0,0,3] example_state
                  (example_request\<lparr>body_price := Some (CHR ''-'' # ''250'')\<rparr>))
             = Responded \<lparr>status = 201, body = Created ''Upload successful!'' c\<rparr>
          \<and> courses (snd (post_courses example_env example_clock [0,0,0,0,0,0,0,0,0,0,0,3]
                             example_state
                             (example_request\<lparr>body_price := Some (CHR ''-'' # ''250'')\<rparr>)))
             = courses example_state @ [c]
          \<and> price c = Finite (- of_nat (digits_value ''250'')))"
proof -
  note created = example_publish
  have code: "status \<lparr>status = 201, body = Created ''Upload successful!'' example_course\<rparr> = 201"
    by simp
  have digits: "short_digits ''250''"
    by (simp add: short_digits_def is_digit_def)
  from published_price [OF created code] digits show ?thesis
    by blast
qed

theorem negative_price_stored:
  "fst (post_courses example_env example_clock [0,0,0,0,0,0,0,0,0,0,0,3] example_state
          (example_request\<lparr>body_price := Some ''-5''\<rparr>))
     = Responded \<lparr>status = 201,
                  body = Created ''Upload successful!'' (example_course\<lparr>price := Finite (- 5)\<rparr>)\<rparr>
   \<and> courses (snd (post_courses example_env example_clock [0,0,0,0,0,0,0,0,0,0,0,3] example_state
                      (example_request\<lparr>body_price := Some ''-5''\<rparr>)))
     = [example_course\<lparr>price := Finite (- 5)\<rparr>]
   \<and> negative (price (example_course\<lparr>price := Finite (- 5)\<rparr>))"
  by (simp add: run_simps negative_def)

text \<open>
  C9. When a multipart request whose file parts the upload middleware all accepts lacks
  a form field (or sends it empty), the answer is the 400 missing-field error, and the
  files are in the upload directory afterwards: every file part has an entry under its
  storage name, the entry holds all the bytes of the part (unless a later part of the
  same request was stored under the same name, over it), and every other entry of the
  directory is as it was before the request. The files were written before the check,
  and the rejection removes none.
\<close>

theorem rejected_publish_keeps_files:
  assumes "multipart req"
    and "fst (upload now (parts req) (uploads st)) = Inr files"
    and "falsy (body_courseName req) \<or> falsy (body_description req) \<or> falsy (body_price req)"
  shows "fst (post_courses e now fresh st req)
           = Responded \<lparr>status = 400, body = Message ''All fields are required.''\<rparr>
       \<and> (\<forall>i<length (parts req). originalname (parts req ! i) \<noteq> [] \<longrightarrow>
            decimal (now i) @ ''-'' @ originalname (parts req ! i)
              \<in> dom (uploads (snd (post_courses e now fresh st req))))
       \<and> (\<forall>i<length (parts req).
            originalname (parts req ! i) \<noteq> []
            \<and> (\<forall>j<length (parts req). i < j \<and> originalname (parts req ! j) \<noteq> [] \<longrightarrow>
                  decimal (now j) @ ''-'' @ originalname (parts req ! j)
                    \<noteq> decimal (now i) @ ''-'' @ originalname (parts req ! i))
            \<longrightarrow> uploads (snd (post_courses e now fresh st req))
                  (decimal (now i) @ ''-'' @ originalname (parts req ! i))
                = Some (bytes (parts req ! i)))
       \<and> (\<forall>n. (\<forall>j<length (parts req). originalname (parts req ! j) \<noteq> [] \<longrightarrow>
                  decimal (now j) @ ''-'' @ originalname (parts req ! j) \<noteq> n)
            \<longrightarrow> uploads (snd (post_courses e now fresh st req)) n = uploads st n)"
proof -
  obtain d where up: "upload now (parts req) (uploads st) = (Inr files, d)"
    using assms(2) by (cases "upload now (parts req) (uploads st)") auto
  have res: "post_courses e now fresh st req
      = (Responded \<lparr>status = 400, body = Message ''All fields are required.''\<rparr>,
         st\<lparr>uploads := d\<rparr>)"
    using assms(1,3) up
    by (auto simp: post_courses_def falsy_def split: option.splits)
  from up have u: "upload_parts now 0 (parts req) maxCounts [] (uploads st) = (Inr files, d)"
    by (simp add: upload_def)
  have there: "decimal (now i) @ ''-'' @ originalname (parts req ! i) \<in> dom d"
    if "i < length (parts req)" "originalname (parts req ! i) \<noteq> []" for i
    using upload_parts_ok_written [OF u that]
    by (simp add: storage_filename_def)
  have whole: "d (decimal (now i) @ ''-'' @ originalname (parts req ! i))
                 = Some (bytes (parts req ! i))"
    if i: "i < length (parts req)" "originalname (parts req ! i) \<noteq> []"
      and last: "\<forall>j<length (parts req). i < j \<and> originalname (parts req ! j) \<noteq> [] \<longrightarrow>
                  decimal (now j) @ ''-'' @ originalname (parts req ! j)
                    \<noteq> decimal (now i) @ ''-'' @ originalname (parts req ! i)" for i
  proof -
    have "storage_filename (now (0 + j)) (parts req ! j)
            \<noteq> storage_filename (now (0 + i)) (parts req ! i)"
      if "i < j" "j < length (parts req)" "originalname (parts req ! j) \<noteq> []" for j
      using last that by (simp add: storage_filename_def)
    from upload_parts_ok_content [OF u i this] show ?thesis
      by (simp add: storage_filename_def)
  qed
  have others: "d n = uploads st n"
    if "\<forall>j<length (parts req). originalname (parts req ! j) \<noteq> [] \<longrightarrow>
                  decimal (now j) @ ''-'' @ originalname (parts req ! j) \<noteq> n" for n
  proof -
    have "storage_filename (now (0 + j)) (parts req ! j) \<noteq> n"
      if "j < length (parts req)" "originalname (parts req ! j) \<noteq> []" for j
      using \<open>\<forall>j<length (parts req). originalname (parts req ! j) \<noteq> [] \<longrightarrow>
                  decimal (now j) @ ''-'' @ originalname (parts req ! j) \<noteq> n\<close> that
      by (simp add: storage_filename_def)
    from upload_parts_ok_frame [OF u this] show ?thesis .
  qed
  from res have dir: "uploads (snd (post_courses e now fresh st req)) = d"
    by simp
  show ?thesis
    unfolding dir
  proof (intro conjI allI impI)
    show "fst (post_courses e now fresh st req)
           = Responded \<lparr>status = 400, body = Message ''All fields are required.''\<rparr>"
      using res by simp
  next
    fix i
    assume "i < length (parts req)" "originalname (parts req ! i) \<noteq> []"
    then show "decimal (now i) @ ''-'' @ originalname (parts req ! i) \<in> dom d"
      by (rule there)
  next
    fix i
    assume "i < length (parts req)"
      and "originalname (parts req ! i) \<noteq> []
            \<and> (\<forall>j<length (parts req). i < j \<and> originalname (parts req ! j) \<noteq> [] \<longrightarrow>
                  decimal (now j) @ ''-'' @ originalname (parts req ! j)
                    \<noteq> decimal (now i) @ ''-'' @ originalname (parts req ! i))"
    then show "d (decimal (now i) @ ''-'' @ originalname (parts req ! i))
                 = Some (bytes (parts req ! i))"
      using whole [of i] by blast
  next
    fix n
    assume "\<forall>j<length (parts req). originalname (parts req ! j) \<noteq> [] \<longrightarrow>
                  decimal (now j) @ ''-'' @ originalname (parts req ! j) \<noteq> n"
    then show "d n = uploads st n"
      by (rule others)
  qed
qed

theorem rejected_publish_keeps_files_witness:
  "fst (post_courses example_env example_clock [0,0,0,0,0,0,0,0,0,0,0,3] example_state
          (example_request\<lparr>body_description := None\<rparr>))
     = Responded \<lparr>status = 400, body = Message ''All fields are required.''\<rparr>
   \<and> uploads (snd (post_courses example_env example_clock [0,0,0,0,0,0,0,0,0,0,0,3]
                      example_state (example_request\<lparr>body_description := None\<rparr>)))
        ''1700000000000-sample.mp4'' = Some 1024
   \<and> uploads (snd (post_courses example_env example_clock [0,0,0,0,0,0,0,0,0,0,0,3]
                      example_state (example_request\<lparr>body_description := None\<rparr>)))
        ''1700000000001-sample2.mp4'' = Some 2048
   \<and> uploads (snd (post_courses example_env example_clock [0,0,0,0,0,0,0,0,0,0,0,3]
                      example_state (example_request\<lparr>body_description := None\<rparr>)))
        ''older.mp4'' = uploads example_state ''older.mp4''"
proof -
  let ?R = "example_request\<lparr>body_description := None\<rparr>"
  let ?dir = "uploads (snd (post_courses example_env example_clock [0,0,0,0,0,0,0,0,0,0,0,3]
                              example_state ?R))"
  have mp: "multipart ?R"
    by (simp add: example_request_def)
  have up: "fst (upload example_clock (parts ?R) (uploads example_state))
      = Inr [\<lparr>part = \<lparr>fieldname = ''videoPreview'', originalname = ''sample.mp4'',
                       mimetype = ''video/mp4'', bytes = 1024\<rparr>,
              filename = ''1700000000000-sample.mp4'', stored_bytes = 1024\<rparr>,
             \<lparr>part = \<lparr>fieldname = ''fullVideo'', originalname = ''sample2.mp4'',
                       mimetype = ''video/mp4'', bytes = 2048\<rparr>,
              filename = ''1700000000001-sample2.mp4'', stored_bytes = 2048\<rparr>]"
    by (simp add: run_simps)
  have absent: "falsy (body_courseName ?R) \<or> falsy (body_description ?R)
      \<or> falsy (body_price ?R)"
    by (simp add: falsy_def)
  note kept = rejected_publish_keeps_files [OF mp up absent,
      of example_env "[0,0,0,0,0,0,0,0,0,0,0,3]"]
  have two: "j = 0 \<or> j = 1" if "j < length (parts ?R)" for j
    using that by (auto simp: example_request_def)
  have name0: "decimal (example_clock 0) @ ''-'' @ originalname (parts ?R ! 0)
      = ''1700000000000-sample.mp4''"
    by (simp add: example_request_def example_clock_def digit_char_values decimal.simps)
  have name1: "decimal (example_clock 1) @ ''-'' @ originalname (parts ?R ! 1)
      = ''1700000000001-sample2.mp4''"
    by (simp add: example_request_def example_clock_def digit_char_values decimal.simps)
  have part0: "0 < length (parts ?R) \<and> originalname (parts ?R ! 0) \<noteq> []
      \<and> bytes (parts ?R ! 0) = 1024"
    by (simp add: example_request_def)
  have part1: "1 < length (parts ?R) \<and> originalname (parts ?R ! 1) \<noteq> []
      \<and> bytes (parts ?R ! 1) = 2048"
    by (simp add: example_request_def)
  have last0: "\<forall>j<length (parts ?R). 0 < j \<and> originalname (parts ?R ! j) \<noteq> [] \<longrightarrow>
      decimal (example_clock j) @ ''-'' @ originalname (parts ?R ! j)
        \<noteq> decimal (example_clock 0) @ ''-'' @ originalname (parts ?R ! 0)"
  proof (intro allI impI)
    fix j
    assume "j < length (parts ?R)"
      and "0 < j \<and> originalname (parts ?R ! j) \<noteq> []"
    with two [of j] have "j = 1" by auto
    with name0 name1
    show "decimal (example_clock j) @ ''-'' @ originalname (parts ?R ! j)
        \<noteq> decimal (example_clock 0) @ ''-'' @ originalname (parts ?R ! 0)"
      by simp
  qed
  have last1: "\<forall>j<length (parts ?R). 1 < j \<and> originalname (parts ?R ! j) \<noteq> [] \<longrightarrow>
      decimal (example_clock j) @ ''-'' @ originalname (parts ?R ! j)
        \<noteq> decimal (example_clock 1) @ ''-'' @ originalname (parts ?R ! 1)"
  proof (intro allI impI)
    fix j
    assume "j < length (parts ?R)"
      and "1 < j \<and> originalname (parts ?R ! j) \<noteq> []"
    with two [of j] have False by auto
    then show "decimal (example_clock j) @ ''-'' @ originalname (parts ?R ! j)
        \<noteq> decimal (example_clock 1) @ ''-'' @ originalname (parts ?R ! 1)" ..
  qed
  have none: "\<forall>j<length (parts ?R). originalname (parts ?R ! j) \<noteq> [] \<longrightarrow>
      decimal (example_clock j) @ ''-'' @ originalname (parts ?R ! j) \<noteq> ''older.mp4''"
  proof (intro allI impI)
    fix j
    assume "j < length (parts ?R)"
    from two [OF this] name0 name1
    show "decimal (example_clock j) @ ''-'' @ originalname (parts ?R ! j) \<noteq> ''older.mp4''"
      by auto
  qed
  from kept have answer: "fst (post_courses example_env example_clock [0,0,0,0,0,0,0,0,0,0,0,3]
        example_state ?R)
     = Responded \<lparr>status = 400, body = Message ''All fields are required.''\<rparr>"
    by (rule conjunct1)
  from kept part0 last0
  have "?dir (decimal (example_clock 0) @ ''-'' @ originalname (parts ?R ! 0))
      = Some (bytes (parts ?R ! 0))"
    by blast
  with name0 part0 have first: "?dir ''1700000000000-sample.mp4'' = Some 1024"
    by simp
  from kept part1 last1
  have "?dir (decimal (example_clock 1) @ ''-'' @ originalname (parts ?R ! 1))
      = Some (bytes (parts ?R ! 1))"
    by blast
  with name1 part1 have second: "?dir ''1700000000001-sample2.mp4'' = Some 2048"
    by simp
  from kept none have third: "?dir ''older.mp4'' = uploads example_state ''older.mp4''"
    by blast
  from answer first second third show ?thesis
    by (intro conjI)
qed

text \<open>
  C10. The claim is that the token route returns the stored token of an admin, as it is,
  with status 200. On the code it answers 500 \<^verbatim>\<open>Server error\<close>, also for a stored admin
  document with a non-empty \<^verbatim>\<open>token\<close> key (here the text of an expired token): line 247
  evaluates \<^verbatim>\<open>Admin\<close>, which nothing binds, so the store is not asked and line 252 is not
  reached.
\<close>

theorem stored_token_answers_500:
  "lookup ''token'' (a_keys \<lparr>a_id = [0,0,0,0,0,0,0,0,0,0,0,2],
        a_keys = [(''username'', JStr ''root''), (''password'', JStr ''bcrypt:pw''),
                  (''token'', JStr ''expired.jwt.text'')]\<rparr>) = JStr ''expired.jwt.text''
   \<and> admin_token
        (example_state\<lparr>admins := [\<lparr>a_id = [0,0,0,0,0,0,0,0,0,0,0,2],
            a_keys = [(''username'', JStr ''root''), (''password'', JStr ''bcrypt:pw''),
                      (''token'', JStr ''expired.jwt.text'')]\<rparr>]\<rparr>)
        (Some ''root'')
     = \<lparr>status = 500, body = Message ''Server error''\<rparr>"
  by (simp add: admin_token_def module_scope_def resolve_def lookup_def)

end
